theory Spec2Isabelle
  imports Main
begin

section \<open>The launch-test runner: data\<close>

text \<open>
  The development follows \<^verbatim>\<open>apex_launchtest/apex_runner.py\<close>: the class
  \<^verbatim>\<open>_RunnerWorker\<close> (one test run: a launch on the primary thread and the
  pre-shutdown tests on a second thread) and the class \<^verbatim>\<open>ApexRunner\<close>
  (\<^verbatim>\<open>run\<close> and \<^verbatim>\<open>validate\<close> over a list of test runs).

  Exceptions are values. \<open>TypeError\<close> carries the function name that
  \<^verbatim>\<open>inspect.getcallargs\<close> puts in its message, \<open>AttributeError\<close> the attribute
  that was read before being assigned, \<open>RunnerError\<close> stands for an exception
  that escapes a test runner. \<open>ConfigurationError\<close> is the error class named
  by the specification; no statement of the program constructs it.
\<close>

datatype py_error =
    TypeError string
  | KeyError
  | UnicodeDecodeError
  | AttributeError string
  | RunnerError string
  | ConfigurationError string

fun is_ConfigurationError :: "py_error + 'a \<Rightarrow> bool" where
  "is_ConfigurationError (Inl (ConfigurationError _)) = True"
| "is_ConfigurationError _ = False"

text \<open>
  What \<^verbatim>\<open>inspect.getfullargspec\<close> reports about a function: the names of the
  positional parameters, the \<^verbatim>\<open>*args\<close> and \<^verbatim>\<open>**kwargs\<close> names, how many
  trailing positional parameters have a default, the keyword-only parameters
  and those of them that have a default.
\<close>

record argspec =
  f_name :: string
  args :: "string list"
  varargs :: "string option"
  varkw :: "string option"
  num_defaults :: nat
  kwonlyargs :: "string list"
  kwonlydefaults :: "string list"

text \<open>
  \<^verbatim>\<open>inspect.getcallargs(func, cb)\<close>: one positional argument and no keyword
  argument. The library raises \<open>TypeError\<close> when the positional argument
  finds no parameter, when a positional parameter without default stays
  unbound, and when a keyword-only parameter without default stays unbound, in
  that order. The binding it returns is discarded by the caller.
\<close>

definition getcallargs :: "argspec \<Rightarrow> py_error + unit" where
  "getcallargs spec =
     (let num_pos = (1::nat); num_args = length (args spec) in
      if num_pos > num_args \<and> varargs spec = None then Inl (TypeError (f_name spec))
      else if num_pos < num_args \<and> num_args - num_defaults spec > num_pos
        then Inl (TypeError (f_name spec))
      else if \<not> list_all (\<lambda>kw. kw \<in> set (kwonlydefaults spec)) (kwonlyargs spec)
        then Inl (TypeError (f_name spec))
      else Inr ())"

text \<open>
  The values bound to the tests. \<open>Active_proc_info\<close> and \<open>Active_proc_output\<close>
  are the objects \<^verbatim>\<open>ActiveProcInfoHandler()\<close> and \<^verbatim>\<open>ActiveIoHandler()\<close>
  created by \<^verbatim>\<open>run\<close>; \<open>Inner_proc_info_handler\<close> and \<open>Inner_io_handler\<close> are
  their attributes \<^verbatim>\<open>_proc_info_handler\<close> and \<^verbatim>\<open>_io_handler\<close>.
  \<open>Context_value\<close> is a value of the test context, opaque to the runner.
\<close>

datatype injected =
    Active_proc_info
  | Active_proc_output
  | Inner_proc_info_handler
  | Inner_io_handler
  | Test_args "string \<rightharpoonup> string"
  | Context_value nat

text \<open>
  A test run as the runner reads it: the description function (through its
  signature) and the context mapping that \<^verbatim>\<open>normalized_test_description\<close>
  returns beside the launch description.
\<close>

record test_run =
  run_name :: string
  test_description_function :: argspec
  test_context :: "string \<rightharpoonup> injected"

record binding =
  injected_attributes :: "string \<rightharpoonup> injected"
  injected_args :: "string \<rightharpoonup> injected"

text \<open>
  \<^verbatim>\<open>for k, v in parsed_launch_arguments: test_args[k] = v\<close>. The pairs are
  what the argument parser returned.
\<close>

fun build_test_args :: "(string \<times> string) list \<Rightarrow> (string \<rightharpoonup> string) \<Rightarrow> (string \<rightharpoonup> string)" where
  "build_test_args [] test_args = test_args"
| "build_test_args ((k, v) # rest) test_args = build_test_args rest (test_args(k \<mapsto> v))"

text \<open>\<^verbatim>\<open>dict(test_context, **kw)\<close>: the keyword arguments replace equal keys.\<close>

definition dict_with :: "(string \<rightharpoonup> injected) \<Rightarrow> (string \<rightharpoonup> injected) \<Rightarrow> (string \<rightharpoonup> injected)" where
  "dict_with d kw = d ++ kw"

definition pre_shutdown_binding :: "test_run \<Rightarrow> (string \<times> string) list \<Rightarrow> binding" where
  "pre_shutdown_binding run parsed_launch_arguments =
     (let test_args = build_test_args parsed_launch_arguments Map.empty;
          names = [''proc_info'' \<mapsto> Active_proc_info,
                   ''proc_output'' \<mapsto> Active_proc_output,
                   ''test_args'' \<mapsto> Test_args test_args]
      in \<lparr>injected_attributes = names,
          injected_args = dict_with (test_context run) names\<rparr>)"

definition post_shutdown_binding :: "test_run \<Rightarrow> (string \<times> string) list \<Rightarrow> binding" where
  "post_shutdown_binding run parsed_launch_arguments =
     (let test_args = build_test_args parsed_launch_arguments Map.empty;
          names = [''proc_info'' \<mapsto> Inner_proc_info_handler,
                   ''proc_output'' \<mapsto> Inner_io_handler,
                   ''test_args'' \<mapsto> Test_args test_args]
      in \<lparr>injected_attributes = names,
          injected_args = dict_with (test_context run) names\<rparr>)"

text \<open>
  \<^verbatim>\<open>ApexRunner.validate\<close>: the loop calls \<^verbatim>\<open>inspect.getcallargs\<close> on every
  run and lets its exception propagate.
\<close>

fun validate :: "test_run list \<Rightarrow> py_error + unit" where
  "validate [] = Inr ()"
| "validate (run # rest) =
     (case getcallargs (test_description_function run) of
        Inl e \<Rightarrow> Inl e
      | Inr _ \<Rightarrow> validate rest)"


section \<open>The diagnostic summary\<close>

text \<open>
  A process-exit record and a captured chunk of output, with the attributes
  the summary reads. Launch actions are identified by numbers; \<open>io_text\<close>
  (the attribute \<^verbatim>\<open>text\<close>) is a byte string (a \<open>char\<close> is a byte).

  The two accumulators belong to other modules. The summary iterates over the
  first, which yields the exit records, and indexes the second by launch
  action, which raises \<open>KeyError\<close> when nothing is stored under the key.
\<close>

record process_exited =
  action :: nat
  process_name :: string
  returncode :: int

record process_io =
  io_text :: string

type_synonym proc_info = "process_exited list"
type_synonym proc_output = "nat \<rightharpoonup> process_io list"

definition getitem :: "proc_output \<Rightarrow> nat \<Rightarrow> py_error + process_io list" where
  "getitem proc_output key =
     (case proc_output key of None \<Rightarrow> Inl KeyError | Some ios \<Rightarrow> Inr ios)"

text \<open>\<^verbatim>\<open>bytes.decode('ascii')\<close> raises on a byte above 127.\<close>

definition decode_ascii :: "string \<Rightarrow> py_error + string" where
  "decode_ascii bs =
     (if list_all (\<lambda>c. (of_char c :: nat) < 128) bs then Inr bs else Inl UnicodeDecodeError)"

text \<open>\<^verbatim>\<open>'{}'.format(n)\<close> for an integer.\<close>

fun str_nat :: "nat \<Rightarrow> string" where
  "str_nat n =
     (if n < 10 then [char_of (48 + n)] else str_nat (n div 10) @ [char_of (48 + n mod 10)])"

definition str_int :: "int \<Rightarrow> string" where
  "str_int i = (if i < 0 then CHR ''-'' # str_nat (nat (- i)) else str_nat (nat i))"

definition exited_line :: "process_exited \<Rightarrow> string" where
  "exited_line process =
     ''Process '' @ [CHR 0x27] @ process_name process @ [CHR 0x27] @ '' exited with ''
       @ str_int (returncode process)"

definition header_line :: "process_exited \<Rightarrow> string" where
  "header_line process =
     ''##### '' @ [CHR 0x27] @ process_name process @ [CHR 0x27] @ '' output #####''"

definition footer_line :: "process_exited \<Rightarrow> string" where
  "footer_line process = replicate (length (process_name process) + 21) CHR ''#''"

text \<open>
  Printing returns the lines written so far and the exception that stopped
  it, if any. \<open>print_io\<close> is the inner loop over the captured output.
\<close>

fun print_io :: "process_io list \<Rightarrow> string list \<times> py_error option" where
  "print_io [] = ([], None)"
| "print_io (io # rest) =
     (case decode_ascii (io_text io) of
        Inl e \<Rightarrow> ([], Some e)
      | Inr line \<Rightarrow> (case print_io rest of (lines, r) \<Rightarrow> (line # lines, r)))"

text \<open>The body of the \<^verbatim>\<open>try\<close>, and the handler that passes on \<open>KeyError\<close> only.\<close>

definition try_print_output :: "proc_output \<Rightarrow> process_exited \<Rightarrow> string list \<times> py_error option" where
  "try_print_output proc_output process =
     (case (case getitem proc_output (action process) of
              Inl e \<Rightarrow> ([], Some e)
            | Inr ios \<Rightarrow> print_io ios) of
        (lines, Some KeyError) \<Rightarrow> (lines, None)
      | (lines, r) \<Rightarrow> (lines, r))"

fun summary_loop :: "process_exited list \<Rightarrow> proc_output \<Rightarrow> string list \<times> py_error option" where
  "summary_loop [] proc_output = ([], None)"
| "summary_loop (process # rest) proc_output =
     (case try_print_output proc_output process of
        (lines, Some e) \<Rightarrow> ([exited_line process, header_line process] @ lines, Some e)
      | (lines, None) \<Rightarrow>
          (case summary_loop rest proc_output of
             (later, r) \<Rightarrow>
               ([exited_line process, header_line process] @ lines @ [footer_line process] @ later, r)))"

definition print_process_output_summary :: "proc_info \<Rightarrow> proc_output \<Rightarrow> string list \<times> py_error option" where
  "print_process_output_summary proc_info proc_output =
     (let failed_procs = filter (\<lambda>proc. returncode proc \<noteq> 0) proc_info
      in summary_loop failed_procs proc_output)"


section \<open>The worker: two threads and the launch service\<close>

text \<open>
  \<^verbatim>\<open>FailResult()\<close> and the result object a test runner returns (identified
  by a number). \<^verbatim>\<open>run\<close> returns a pair of them; a function that falls off
  its end returns \<open>PyNone\<close>.
\<close>

datatype test_result = FailResult | TestResult nat

datatype py_return = PyNone | ResultPair test_result test_result

datatype suite = Pre_shutdown_tests | Post_shutdown_tests

text \<open>What the two threads do to the world, in the order in which it happens.\<close>

datatype event =
    Print string
  | Bind suite
  | Thread_start
  | Set_processes_launched
  | Set_tests_completed
  | Service_shutdown
  | Run_suite suite

text \<open>
  The statement each thread is at. The primary thread executes
  \<^verbatim>\<open>_RunnerWorker.run\<close>: \<open>P_bind\<close> is lines 66 to 135 (normalise the
  description, bind both suites, include the launch description),
  \<open>P_start_thread\<close> line 137, \<open>P_service_run\<close> the blocking call of line 138,
  \<open>P_check\<close> the test of line 140, \<open>P_early_print\<close>, \<open>P_summary\<close> and
  \<open>P_early_return\<close> lines 143, 145 and 147, \<open>P_post_tests\<close> lines 149 to 152,
  \<open>P_return\<close> line 154 (with the local \<^verbatim>\<open>inactive_results\<close>), and
  \<open>P_done\<close> holds what the call returned or raised.

  The second thread executes \<^verbatim>\<open>_run_test\<close>: \<open>S_wait\<close> is the wait of
  line 160, \<open>S_timeout_print\<close> and \<open>S_timeout_shutdown\<close> lines 162 and 163,
  \<open>S_run_tests\<close> the body of the \<^verbatim>\<open>try\<close>, \<open>S_finally_set\<close> and
  \<open>S_finally_shutdown\<close> lines 174 and 175 (with the exception that is pending,
  if the runner raised), and \<open>S_exited\<close> the end of the routine.
\<close>

datatype primary_pc =
    P_bind
  | P_start_thread
  | P_service_run
  | P_check
  | P_early_print
  | P_summary
  | P_early_return
  | P_post_tests
  | P_return test_result
  | P_done "py_error + py_return"

datatype secondary_pc =
    S_not_started
  | S_wait
  | S_timeout_print
  | S_timeout_shutdown
  | S_run_tests
  | S_finally_set "py_error option"
  | S_finally_shutdown "py_error option"
  | S_exited "py_error option"

record worker =
  self_test_run :: test_run
  parsed_launch_arguments :: "(string \<times> string) list"
  debug :: bool
  processes_launched :: bool
  tests_completed :: bool
  results :: "test_result option"
  pre_bound :: "binding option"
  post_bound :: "binding option"
  proc_info_acc :: proc_info
  proc_output_acc :: proc_output
  ppc :: primary_pc
  spc :: secondary_pc
  trace :: "event list"

definition init_worker :: "test_run \<Rightarrow> (string \<times> string) list \<Rightarrow> bool \<Rightarrow> worker" where
  "init_worker run parsed dbg =
     \<lparr>self_test_run = run, parsed_launch_arguments = parsed, debug = dbg,
      processes_launched = False, tests_completed = False,
      results = None,
      pre_bound = None, post_bound = None,
      proc_info_acc = [], proc_output_acc = Map.empty,
      ppc = P_bind, spc = S_not_started, trace = []\<rparr>"

text \<open>
  One step of the system. \<open>Primary\<close> and \<open>Secondary\<close> let a thread execute
  the statement it is at, when that statement does not wait for anything. The
  other actions are the answers of the surroundings:
  \<^item> \<open>Ready_callback\<close>: the callback handed to the description function is
    invoked;
  \<^item> \<open>Wait_ready\<close>, \<open>Wait_timeout\<close>: the wait of line 160 returns true (the
    event is set) or false (the 15 seconds passed with the event unset);
  \<^item> \<open>Pre_runner\<close>, \<open>Post_runner\<close>: the test runner runs a suite and returns
    a result or raises;
  \<^item> \<open>Service_returns\<close>: the blocking call of line 138 returns, after a
    shutdown request or because the processes are gone or the user
    interrupted; its arguments are what the exit and output handlers have
    stored in the two accumulators during the call.
\<close>

datatype action =
    Primary
  | Secondary
  | Ready_callback
  | Wait_ready
  | Wait_timeout
  | Pre_runner "py_error + nat"
  | Post_runner "py_error + nat"
  | Service_returns proc_info proc_output

definition emit :: "event list \<Rightarrow> worker \<Rightarrow> worker" where
  "emit es w = w\<lparr>trace := trace w @ es\<rparr>"

definition early_message :: string where
  "early_message = ''Processes under test stopped before tests completed''"

definition timeout_message :: string where
  "timeout_message = ''Timed out waiting for processes to start up''"

fun primary_step :: "worker \<Rightarrow> worker option" where
  "primary_step w =
     (case ppc w of
        P_bind \<Rightarrow>
          Some (emit [Bind Pre_shutdown_tests, Bind Post_shutdown_tests]
            (w\<lparr>pre_bound := Some (pre_shutdown_binding (self_test_run w) (parsed_launch_arguments w)),
               post_bound := Some (post_shutdown_binding (self_test_run w) (parsed_launch_arguments w)),
               ppc := P_start_thread\<rparr>))
      | P_start_thread \<Rightarrow>
          Some (emit [Thread_start] (w\<lparr>spc := S_wait, ppc := P_service_run\<rparr>))
      | P_service_run \<Rightarrow> None
      | P_check \<Rightarrow>
          Some (if \<not> tests_completed w then w\<lparr>ppc := P_early_print\<rparr>
                else w\<lparr>ppc := P_post_tests\<rparr>)
      | P_early_print \<Rightarrow> Some (emit [Print early_message] (w\<lparr>ppc := P_summary\<rparr>))
      | P_summary \<Rightarrow>
          (case print_process_output_summary (proc_info_acc w) (proc_output_acc w) of
             (lines, None) \<Rightarrow> Some (emit (map Print lines) (w\<lparr>ppc := P_early_return\<rparr>))
           | (lines, Some e) \<Rightarrow> Some (emit (map Print lines) (w\<lparr>ppc := P_done (Inl e)\<rparr>)))
      | P_early_return \<Rightarrow> Some (w\<lparr>ppc := P_done (Inr (ResultPair FailResult FailResult))\<rparr>)
      | P_post_tests \<Rightarrow> None
      | P_return inactive_results \<Rightarrow>
          (case results w of
             None \<Rightarrow> Some (w\<lparr>ppc := P_done (Inl (AttributeError ''_results''))\<rparr>)
           | Some r \<Rightarrow> Some (w\<lparr>ppc := P_done (Inr (ResultPair r inactive_results))\<rparr>))
      | P_done _ \<Rightarrow> None)"

fun secondary_step :: "worker \<Rightarrow> worker option" where
  "secondary_step w =
     (case spc w of
        S_timeout_print \<Rightarrow> Some (emit [Print timeout_message] (w\<lparr>spc := S_timeout_shutdown\<rparr>))
      | S_timeout_shutdown \<Rightarrow> Some (emit [Service_shutdown] (w\<lparr>spc := S_exited None\<rparr>))
      | S_finally_set pending \<Rightarrow>
          Some (emit [Set_tests_completed]
            (w\<lparr>tests_completed := True, spc := S_finally_shutdown pending\<rparr>))
      | S_finally_shutdown pending \<Rightarrow>
          Some (emit [Service_shutdown] (w\<lparr>spc := S_exited pending\<rparr>))
      | _ \<Rightarrow> None)"

fun step :: "action \<Rightarrow> worker \<Rightarrow> worker option" where
  "step Primary w = primary_step w"
| "step Secondary w = secondary_step w"
| "step Ready_callback w =
     (if ppc w = P_bind then None
      else Some (emit [Set_processes_launched] (w\<lparr>processes_launched := True\<rparr>)))"
| "step Wait_ready w =
     (if spc w = S_wait \<and> processes_launched w then Some (w\<lparr>spc := S_run_tests\<rparr>) else None)"
| "step Wait_timeout w =
     (if spc w = S_wait \<and> \<not> processes_launched w then Some (w\<lparr>spc := S_timeout_print\<rparr>)
      else None)"
| "step (Pre_runner r) w =
     (if spc w = S_run_tests then
        (case r of
           Inr res \<Rightarrow>
             Some (emit [Run_suite Pre_shutdown_tests]
               (w\<lparr>results := Some (TestResult res), spc := S_finally_set None\<rparr>))
         | Inl e \<Rightarrow>
             Some (emit [Run_suite Pre_shutdown_tests] (w\<lparr>spc := S_finally_set (Some e)\<rparr>)))
      else None)"
| "step (Post_runner r) w =
     (if ppc w = P_post_tests then
        (case r of
           Inr res \<Rightarrow>
             Some (emit [Run_suite Post_shutdown_tests]
               (w\<lparr>ppc := P_return (TestResult res)\<rparr>))
         | Inl e \<Rightarrow>
             Some (emit [Run_suite Post_shutdown_tests] (w\<lparr>ppc := P_done (Inl e)\<rparr>)))
      else None)"
| "step (Service_returns pi po) w =
     (if ppc w = P_service_run
      then Some (w\<lparr>proc_info_acc := pi, proc_output_acc := po, ppc := P_check\<rparr>)
      else None)"

text \<open>A schedule is a list of actions; it runs as long as each action is enabled.\<close>

fun exec :: "action list \<Rightarrow> worker \<Rightarrow> worker option" where
  "exec [] w = Some w"
| "exec (a # as) w = (case step a w of None \<Rightarrow> None | Some w' \<Rightarrow> exec as w')"

text \<open>
  \<^verbatim>\<open>_RunnerWorker(run, args, debug).run()\<close> under a schedule: what the call
  returned or raised, if the schedule brings the primary thread to its end.
\<close>

definition RunnerWorker_run ::
  "test_run \<Rightarrow> (string \<times> string) list \<Rightarrow> bool \<Rightarrow> action list \<Rightarrow> (py_error + py_return) option" where
  "RunnerWorker_run run parsed dbg sched =
     (case exec sched (init_worker run parsed dbg) of
        None \<Rightarrow> None
      | Some w \<Rightarrow> (case ppc w of P_done out \<Rightarrow> Some out | _ \<Rightarrow> None))"

text \<open>
  \<^verbatim>\<open>ApexRunner.run\<close>: the body of the loop returns in its first iteration;
  with no run the loop ends and the function returns \<open>None\<close>. The first
  component lists the runs for which a worker was constructed.
\<close>

fun ApexRunner_run ::
  "test_run list \<Rightarrow> (string \<times> string) list \<Rightarrow> bool \<Rightarrow> action list
     \<Rightarrow> test_run list \<times> (py_error + py_return) option" where
  "ApexRunner_run [] parsed dbg sched = ([], Some (Inr PyNone))"
| "ApexRunner_run (run # rest) parsed dbg sched = ([run], RunnerWorker_run run parsed dbg sched)"


section \<open>Reference predicates and example inputs\<close>

text \<open>
  A function accepts the readiness callback as its single positional argument
  when it has a positional parameter or \<^verbatim>\<open>*args\<close> to take it, at most one
  positional parameter without default, and no keyword-only parameter without
  default.
\<close>

definition accepts_one_positional :: "argspec \<Rightarrow> bool" where
  "accepts_one_positional spec \<longleftrightarrow>
     (args spec \<noteq> [] \<or> varargs spec \<noteq> None)
     \<and> length (args spec) - num_defaults spec \<le> 1
     \<and> set (kwonlyargs spec) \<subseteq> set (kwonlydefaults spec)"

text \<open>\<^verbatim>\<open>def name(p1, ..., pn)\<close>: positional parameters only, no default.\<close>

definition plain_function :: "string \<Rightarrow> string list \<Rightarrow> argspec" where
  "plain_function name params =
     \<lparr>f_name = name, args = params, varargs = None, varkw = None, num_defaults = 0,
      kwonlyargs = [], kwonlydefaults = []\<rparr>"

text \<open>\<^verbatim>\<open>def gen_kw(*, ready_fn)\<close>: one parameter, keyword-only.\<close>

definition ex_kwonly :: argspec where
  "ex_kwonly =
     \<lparr>f_name = ''gen_kw'', args = [], varargs = None, varkw = None, num_defaults = 0,
      kwonlyargs = [''ready_fn''], kwonlydefaults = []\<rparr>"

definition ex_run :: "string \<Rightarrow> argspec \<Rightarrow> test_run" where
  "ex_run name spec =
     \<lparr>run_name = name, test_description_function = spec, test_context = Map.empty\<rparr>"

text \<open>
  The events that only the second thread produces, and the part of the trace
  made of them.
\<close>

definition secondary_event :: "event \<Rightarrow> bool" where
  "secondary_event e \<longleftrightarrow>
     e = Run_suite Pre_shutdown_tests \<or> e = Set_tests_completed \<or> e = Service_shutdown"

definition sec_trace :: "worker \<Rightarrow> event list" where
  "sec_trace w = filter secondary_event (trace w)"

text \<open>
  What the second thread has done when it is at a given statement: the events
  it has produced so far and the value of the completion signal. The routine
  ends either on the timeout path (one shutdown request, signal unset) or
  after the suite (suite, signal set, shutdown request).
\<close>

fun sec_allowed :: "secondary_pc \<Rightarrow> (event list \<times> bool) list" where
  "sec_allowed (S_finally_set _) = [([Run_suite Pre_shutdown_tests], False)]"
| "sec_allowed (S_finally_shutdown _) = [([Run_suite Pre_shutdown_tests, Set_tests_completed], True)]"
| "sec_allowed (S_exited _) =
     [([Service_shutdown], False),
      ([Run_suite Pre_shutdown_tests, Set_tests_completed, Service_shutdown], True)]"
| "sec_allowed _ = [([], False)]"

definition secondary_inv :: "worker \<Rightarrow> bool" where
  "secondary_inv w \<longleftrightarrow>
     (sec_trace w, tests_completed w) \<in> set (sec_allowed (spc w))
     \<and> (ppc w = P_bind \<or> ppc w = P_start_thread \<longrightarrow> spc w = S_not_started)"

text \<open>
  On the timeout path the second thread has printed its message before it
  requests the shutdown, and it is the only path on which the routine ends
  with the completion signal unset.
\<close>

definition timeout_path_inv :: "worker \<Rightarrow> bool" where
  "timeout_path_inv w \<longleftrightarrow>
     (spc w = S_timeout_shutdown \<longrightarrow> Print timeout_message \<in> set (trace w))
     \<and> (\<forall>pending. spc w = S_exited pending \<and> \<not> tests_completed w \<longrightarrow>
           Print timeout_message \<in> set (trace w) \<and> pending = None)"

text \<open>
  A run whose description function takes the readiness callback, a schedule
  in which the callback is never invoked and the wait times out, and a
  schedule in which the processes signal readiness and the suite runs.
\<close>

definition ex_ready_run :: test_run where
  "ex_ready_run =
     \<lparr>run_name = ''run'',
      test_description_function = plain_function ''generate_test_description'' [''ready_fn''],
      test_context = Map.empty\<rparr>"

definition timeout_schedule :: "action list" where
  "timeout_schedule = [Primary, Primary, Wait_timeout, Secondary, Secondary]"

definition normal_schedule :: "action list" where
  "normal_schedule =
     [Primary, Primary, Ready_callback, Wait_ready, Pre_runner (Inr 7), Secondary, Secondary]"

text \<open>
  The summary of one failed process when nothing goes wrong: the exit line,
  the header, the captured output (none when the accumulator has no entry for
  the launch action) and the footer. \<open>ascii_output\<close> says that every captured
  chunk of the process decodes as ASCII.
\<close>

definition ascii_output :: "proc_output \<Rightarrow> process_exited \<Rightarrow> bool" where
  "ascii_output proc_output process =
     (case proc_output (action process) of
        None \<Rightarrow> True
      | Some ios \<Rightarrow> list_all (\<lambda>io. list_all (\<lambda>c. (of_char c :: nat) < 128) (io_text io)) ios)"

definition summary_block :: "proc_output \<Rightarrow> process_exited \<Rightarrow> string list" where
  "summary_block proc_output process =
     [exited_line process, header_line process]
     @ (case proc_output (action process) of None \<Rightarrow> [] | Some ios \<Rightarrow> map io_text ios)
     @ [footer_line process]"

text \<open>
  Two processes that exited with a non-zero code; the first one wrote the
  single byte 255.
\<close>

definition ex_talker :: process_exited where
  "ex_talker = \<lparr>action = 1, process_name = ''talker'', returncode = 1\<rparr>"

definition ex_listener :: process_exited where
  "ex_listener = \<lparr>action = 2, process_name = ''listener'', returncode = - 2\<rparr>"

definition ex_non_ascii_output :: proc_output where
  "ex_non_ascii_output = [1 \<mapsto> [\<lparr>io_text = [CHR 0xFF]\<rparr>]]"

text \<open>
  The worker keeps its run and its arguments, and both suites are bound once
  the primary thread has left its first statement.
\<close>

definition bind_inv :: "test_run \<Rightarrow> (string \<times> string) list \<Rightarrow> worker \<Rightarrow> bool" where
  "bind_inv run parsed w \<longleftrightarrow>
     self_test_run w = run \<and> parsed_launch_arguments w = parsed
     \<and> (ppc w \<noteq> P_bind \<longrightarrow>
          pre_bound w = Some (pre_shutdown_binding run parsed)
          \<and> post_bound w = Some (post_shutdown_binding run parsed))"

text \<open>
  A run whose context has an entry named \<open>proc_info\<close> of its own, and an
  entry \<open>dut\<close>.
\<close>

definition ex_context_run :: test_run where
  "ex_context_run =
     \<lparr>run_name = ''run'', test_description_function = plain_function ''generate_test_description'' [''ready_fn''],
      test_context = [''proc_info'' \<mapsto> Context_value 1, ''dut'' \<mapsto> Context_value 2]\<rparr>"

text \<open>
  The exception that the diagnostic summary raises on the accumulators of a
  state, if any.
\<close>

definition summary_error :: "worker \<Rightarrow> py_error option" where
  "summary_error w = snd (print_process_output_summary (proc_info_acc w) (proc_output_acc w))"

text \<open>
  Statements of the primary thread: up to the check of line 140; on the
  early-exit branch (lines 143 to 147), where the outcome is the pair of
  failing results unless the summary raised; and after the post-shutdown
  suite. \<open>early_rank\<close> counts the statements left on the early-exit branch.
\<close>

fun before_check_pc :: "primary_pc \<Rightarrow> bool" where
  "before_check_pc P_bind = True"
| "before_check_pc P_start_thread = True"
| "before_check_pc P_service_run = True"
| "before_check_pc P_check = True"
| "before_check_pc _ = False"

fun early_exit_pc :: "primary_pc \<Rightarrow> py_error option \<Rightarrow> bool" where
  "early_exit_pc P_early_print r = True"
| "early_exit_pc P_summary r = True"
| "early_exit_pc P_early_return r = (r = None)"
| "early_exit_pc (P_done out) r =
     (out = (case r of None \<Rightarrow> Inr (ResultPair FailResult FailResult) | Some e \<Rightarrow> Inl e))"
| "early_exit_pc _ r = False"

fun early_rank :: "primary_pc \<Rightarrow> nat" where
  "early_rank P_early_print = 3"
| "early_rank P_summary = 2"
| "early_rank P_early_return = 1"
| "early_rank _ = 0"

fun after_post_pc :: "primary_pc \<Rightarrow> bool" where
  "after_post_pc (P_return _) = True"
| "after_post_pc (P_done _) = True"
| "after_post_pc _ = False"

text \<open>
  Statements the second thread can be at while the readiness event has never
  been set.
\<close>

fun no_ready_spc :: "secondary_pc \<Rightarrow> bool" where
  "no_ready_spc S_not_started = True"
| "no_ready_spc S_wait = True"
| "no_ready_spc S_timeout_print = True"
| "no_ready_spc S_timeout_shutdown = True"
| "no_ready_spc (S_exited pending) = (pending = None)"
| "no_ready_spc _ = False"

text \<open>
  Invariants: the post-shutdown suite has run only if the primary thread is at
  or after line 154; on the early-exit branch it has not run; and what holds
  as long as the readiness callback has not been invoked.
\<close>

definition post_inv :: "worker \<Rightarrow> bool" where
  "post_inv w \<longleftrightarrow> (Run_suite Post_shutdown_tests \<in> set (trace w) \<longrightarrow> after_post_pc (ppc w))"

definition early_exit_inv :: "worker \<Rightarrow> bool" where
  "early_exit_inv w \<longleftrightarrow>
     Run_suite Post_shutdown_tests \<notin> set (trace w) \<and> early_exit_pc (ppc w) (summary_error w)"

definition no_ready_inv :: "worker \<Rightarrow> bool" where
  "no_ready_inv w \<longleftrightarrow>
     \<not> processes_launched w \<and> \<not> tests_completed w \<and> no_ready_spc (spc w)
     \<and> (\<forall>s. Run_suite s \<notin> set (trace w))
     \<and> (before_check_pc (ppc w) \<or> early_exit_pc (ppc w) (summary_error w))"

text \<open>
  A schedule in which the launch service returns by itself just after the
  pre-shutdown suite has finished, before the second thread sets the
  completion signal; and one in which it returns while the second thread still
  waits, one process having exited with a non-zero code and no output.
\<close>

definition race_schedule :: "action list" where
  "race_schedule =
     [Primary, Primary, Ready_callback, Wait_ready, Pre_runner (Inr 7), Service_returns [] Map.empty]"

definition early_exit_schedule :: "action list" where
  "early_exit_schedule = [Primary, Primary, Service_returns [ex_listener] Map.empty]"

section \<open>Properties\<close>

subsection \<open>The orchestrator\<close>

lemma getcallargs_iff: "getcallargs spec = Inr () \<longleftrightarrow> accepts_one_positional spec"
  by (auto simp: getcallargs_def accepts_one_positional_def Let_def list_all_iff)

lemma getcallargs_error:
  "getcallargs spec \<noteq> Inr () \<Longrightarrow> getcallargs spec = Inl (TypeError (f_name spec))"
  by (auto simp: getcallargs_def Let_def split: if_splits)

lemma validate_ok_iff:
  "validate runs = Inr () \<longleftrightarrow>
     (\<forall>run \<in> set runs. accepts_one_positional (test_description_function run))"
  by (induction runs) (auto simp: getcallargs_iff[symmetric] split: sum.splits)

lemma validate_first_error:
  "validate runs =
     (case find (\<lambda>run. \<not> accepts_one_positional (test_description_function run)) runs of
        None \<Rightarrow> Inr ()
      | Some run \<Rightarrow> Inl (TypeError (f_name (test_description_function run))))"
proof (induction runs)
  case Nil
  then show ?case by simp
next
  case (Cons run rest)
  show ?case
  proof (cases "accepts_one_positional (test_description_function run)")
    case True
    then have "getcallargs (test_description_function run) = Inr ()"
      by (simp add: getcallargs_iff)
    with True Cons show ?thesis by simp
  next
    case False
    then have "getcallargs (test_description_function run) \<noteq> Inr ()"
      by (simp add: getcallargs_iff)
    then have "getcallargs (test_description_function run)
        = Inl (TypeError (f_name (test_description_function run)))"
      by (rule getcallargs_error)
    with False show ?thesis by simp
  qed
qed

text \<open>
  Claim C5, as stated, fails: for a run whose description function takes no
  parameter \<^verbatim>\<open>validate\<close> raises the \<open>TypeError\<close> of
  \<^verbatim>\<open>inspect.getcallargs\<close>, whose message names the function and not the run,
  and not a \<open>ConfigurationError\<close>; and a function with exactly one parameter
  is rejected as well when that parameter is keyword-only.
\<close>

theorem validate_ConfigurationError_counterexample:
  "validate [ex_run ''r0'' (plain_function ''gen0'' [])] = Inl (TypeError ''gen0'')
   \<and> \<not> is_ConfigurationError (validate [ex_run ''r0'' (plain_function ''gen0'' [])])
   \<and> validate [ex_run ''r1'' ex_kwonly] = Inl (TypeError ''gen_kw'')"
  by (simp add: ex_run_def plain_function_def ex_kwonly_def getcallargs_def)

text \<open>
  Claim C5, amended: \<^verbatim>\<open>validate\<close> raises the \<open>TypeError\<close> of the signature
  check, carrying the name of the function, for the first run whose
  description function cannot be called with one positional argument, and
  returns normally exactly when every run's function can. A function with
  exactly one positional parameter can; a function with no parameter cannot.
\<close>

theorem validate_raises_TypeError:
  "validate runs =
     (case find (\<lambda>run. \<not> accepts_one_positional (test_description_function run)) runs of
        None \<Rightarrow> Inr ()
      | Some run \<Rightarrow> Inl (TypeError (f_name (test_description_function run))))
   \<and> (validate runs = Inr () \<longleftrightarrow>
        (\<forall>run \<in> set runs. accepts_one_positional (test_description_function run)))
   \<and> accepts_one_positional (plain_function name [p])
   \<and> \<not> accepts_one_positional (plain_function name [])"
  using validate_first_error [of runs] validate_ok_iff [of runs]
  by (simp add: accepts_one_positional_def plain_function_def)

theorem validate_raises_TypeError_witness:
  "validate [ex_run ''r1'' (plain_function ''gen1'' [''ready_fn'']),
             ex_run ''r0'' (plain_function ''gen0'' [])] = Inl (TypeError ''gen0'')
   \<and> validate [ex_run ''r1'' (plain_function ''gen1'' [''ready_fn''])] = Inr ()"
  using validate_raises_TypeError
      [of "[ex_run ''r1'' (plain_function ''gen1'' [''ready_fn'']),
            ex_run ''r0'' (plain_function ''gen0'' [])]" "''gen1''" "''ready_fn''"]
    validate_raises_TypeError
      [of "[ex_run ''r1'' (plain_function ''gen1'' [''ready_fn''])]" "''gen1''" "''ready_fn''"]
  by (simp add: ex_run_def accepts_one_positional_def plain_function_def)

text \<open>
  Claim C7: for a non-empty list of runs, \<^verbatim>\<open>ApexRunner.run\<close> constructs a
  worker for the first run only and returns (or raises) what that worker's
  \<^verbatim>\<open>run\<close> returns (or raises); the runs after the first have no influence.
\<close>

theorem ApexRunner_run_first_only:
  "ApexRunner_run (run # rest) parsed dbg sched = ([run], RunnerWorker_run run parsed dbg sched)
   \<and> ApexRunner_run (run # rest) parsed dbg sched = ApexRunner_run [run] parsed dbg sched"
  by simp

text \<open>
  Claim C9: for the empty list of runs, \<^verbatim>\<open>ApexRunner.run\<close> constructs no
  worker and returns \<open>None\<close>, which is no pair of results.
\<close>

theorem ApexRunner_run_empty:
  "ApexRunner_run [] parsed dbg sched = ([], Some (Inr PyNone))
   \<and> (\<forall>a b. snd (ApexRunner_run [] parsed dbg sched) \<noteq> Some (Inr (ResultPair a b)))"
  by simp


subsection \<open>Steps and schedules\<close>

lemma exec_append:
  "exec (as @ bs) w = (case exec as w of None \<Rightarrow> None | Some w' \<Rightarrow> exec bs w')"
  by (induction as arbitrary: w) (auto split: option.splits)

lemma exec_invariant:
  assumes pres: "\<And>a w w'. a \<in> A \<Longrightarrow> I w \<Longrightarrow> step a w = Some w' \<Longrightarrow> I w'"
    and "set as \<subseteq> A" and "I w" and "exec as w = Some w'"
  shows "I w'"
  using assms(2-)
proof (induction as arbitrary: w)
  case Nil
  then show ?case by simp
next
  case (Cons a as)
  from Cons.prems(3) obtain w1 where s: "step a w = Some w1" and e: "exec as w1 = Some w'"
    by (auto split: option.splits)
  from Cons.prems(1) have "a \<in> A" and sub: "set as \<subseteq> A" by auto
  with pres s Cons.prems(2) have "I w1" by blast
  with Cons.IH sub e show ?case by blast
qed

lemma emit_fields [simp]:
  "spc (emit es w) = spc w" "ppc (emit es w) = ppc w"
  "tests_completed (emit es w) = tests_completed w"
  "processes_launched (emit es w) = processes_launched w"
  "results (emit es w) = results w"
  "pre_bound (emit es w) = pre_bound w" "post_bound (emit es w) = post_bound w"
  "proc_info_acc (emit es w) = proc_info_acc w" "proc_output_acc (emit es w) = proc_output_acc w"
  "self_test_run (emit es w) = self_test_run w"
  "parsed_launch_arguments (emit es w) = parsed_launch_arguments w"
  "trace (emit es w) = trace w @ es"
  by (simp_all add: emit_def)

lemma trace_upd [simp]:
  "trace (w\<lparr>spc := a\<rparr>) = trace w"
  "trace (w\<lparr>ppc := b\<rparr>) = trace w"
  by simp_all

lemma sec_trace_emit [simp]:
  "sec_trace (emit es w) = sec_trace w @ filter secondary_event es"
  by (simp add: sec_trace_def emit_def)

lemma sec_trace_upd [simp]:
  "sec_trace (w\<lparr>spc := a\<rparr>) = sec_trace w"
  "sec_trace (w\<lparr>ppc := b\<rparr>) = sec_trace w"
  "sec_trace (w\<lparr>tests_completed := c\<rparr>) = sec_trace w"
  "sec_trace (w\<lparr>processes_launched := d\<rparr>) = sec_trace w"
  "sec_trace (w\<lparr>results := e\<rparr>) = sec_trace w"
  "sec_trace (w\<lparr>pre_bound := f\<rparr>) = sec_trace w"
  "sec_trace (w\<lparr>post_bound := g\<rparr>) = sec_trace w"
  "sec_trace (w\<lparr>proc_info_acc := h\<rparr>) = sec_trace w"
  "sec_trace (w\<lparr>proc_output_acc := i\<rparr>) = sec_trace w"
  by (simp_all add: sec_trace_def)

lemma filter_secondary_map_Print [simp]: "filter secondary_event (map Print ls) = []"
  by (induction ls) (auto simp: secondary_event_def)

lemma secondary_events [simp]:
  "secondary_event (Run_suite Pre_shutdown_tests)"
  "secondary_event Set_tests_completed"
  "secondary_event Service_shutdown"
  by (simp_all add: secondary_event_def)

lemma primary_step_cases:
  "ppc w = P_bind \<Longrightarrow> primary_step w =
     Some (emit [Bind Pre_shutdown_tests, Bind Post_shutdown_tests]
            (w\<lparr>pre_bound := Some (pre_shutdown_binding (self_test_run w) (parsed_launch_arguments w)),
               post_bound := Some (post_shutdown_binding (self_test_run w) (parsed_launch_arguments w)),
               ppc := P_start_thread\<rparr>))"
  "ppc w = P_start_thread \<Longrightarrow> primary_step w =
     Some (emit [Thread_start] (w\<lparr>spc := S_wait, ppc := P_service_run\<rparr>))"
  "ppc w = P_service_run \<Longrightarrow> primary_step w = None"
  "ppc w = P_check \<Longrightarrow> primary_step w =
     Some (if \<not> tests_completed w then w\<lparr>ppc := P_early_print\<rparr> else w\<lparr>ppc := P_post_tests\<rparr>)"
  "ppc w = P_early_print \<Longrightarrow> primary_step w =
     Some (emit [Print early_message] (w\<lparr>ppc := P_summary\<rparr>))"
  "ppc w = P_summary \<Longrightarrow> primary_step w =
     (case print_process_output_summary (proc_info_acc w) (proc_output_acc w) of
        (lines, None) \<Rightarrow> Some (emit (map Print lines) (w\<lparr>ppc := P_early_return\<rparr>))
      | (lines, Some e) \<Rightarrow> Some (emit (map Print lines) (w\<lparr>ppc := P_done (Inl e)\<rparr>)))"
  "ppc w = P_early_return \<Longrightarrow> primary_step w =
     Some (w\<lparr>ppc := P_done (Inr (ResultPair FailResult FailResult))\<rparr>)"
  "ppc w = P_post_tests \<Longrightarrow> primary_step w = None"
  "ppc w = P_return i \<Longrightarrow> primary_step w =
     (case results w of
        None \<Rightarrow> Some (w\<lparr>ppc := P_done (Inl (AttributeError ''_results''))\<rparr>)
      | Some r \<Rightarrow> Some (w\<lparr>ppc := P_done (Inr (ResultPair r i))\<rparr>))"
  "ppc w = P_done out \<Longrightarrow> primary_step w = None"
  by simp_all

declare primary_step.simps [simp del]

lemma primary_step_elim [consumes 1, case_names bind start_thread check_unset check_set
    early_print summary_ok summary_raise early_return return_unset return_ok]:
  assumes "primary_step w = Some w'"
  obtains
    "ppc w = P_bind"
      "w' = emit [Bind Pre_shutdown_tests, Bind Post_shutdown_tests]
            (w\<lparr>pre_bound := Some (pre_shutdown_binding (self_test_run w) (parsed_launch_arguments w)),
               post_bound := Some (post_shutdown_binding (self_test_run w) (parsed_launch_arguments w)),
               ppc := P_start_thread\<rparr>)"
  | "ppc w = P_start_thread" "w' = emit [Thread_start] (w\<lparr>spc := S_wait, ppc := P_service_run\<rparr>)"
  | "ppc w = P_check" "\<not> tests_completed w" "w' = w\<lparr>ppc := P_early_print\<rparr>"
  | "ppc w = P_check" "tests_completed w" "w' = w\<lparr>ppc := P_post_tests\<rparr>"
  | "ppc w = P_early_print" "w' = emit [Print early_message] (w\<lparr>ppc := P_summary\<rparr>)"
  | lines where "ppc w = P_summary"
      "print_process_output_summary (proc_info_acc w) (proc_output_acc w) = (lines, None)"
      "w' = emit (map Print lines) (w\<lparr>ppc := P_early_return\<rparr>)"
  | lines e where "ppc w = P_summary"
      "print_process_output_summary (proc_info_acc w) (proc_output_acc w) = (lines, Some e)"
      "w' = emit (map Print lines) (w\<lparr>ppc := P_done (Inl e)\<rparr>)"
  | "ppc w = P_early_return" "w' = w\<lparr>ppc := P_done (Inr (ResultPair FailResult FailResult))\<rparr>"
  | i where "ppc w = P_return i" "results w = None"
      "w' = w\<lparr>ppc := P_done (Inl (AttributeError ''_results''))\<rparr>"
  | i r where "ppc w = P_return i" "results w = Some r"
      "w' = w\<lparr>ppc := P_done (Inr (ResultPair r i))\<rparr>"
proof (cases "ppc w")
  case P_bind
  with assms that(1) show ?thesis by (simp add: primary_step_cases)
next
  case P_start_thread
  with assms that(2) show ?thesis by (simp add: primary_step_cases)
next
  case P_service_run
  with assms show ?thesis by (simp add: primary_step_cases)
next
  case P_check
  with assms that(3,4) show ?thesis by (cases "tests_completed w") (simp_all add: primary_step_cases)
next
  case P_early_print
  with assms that(5) show ?thesis by (simp add: primary_step_cases)
next
  case P_summary
  obtain lines r where s: "print_process_output_summary (proc_info_acc w) (proc_output_acc w) = (lines, r)"
    by (cases "print_process_output_summary (proc_info_acc w) (proc_output_acc w)")
  show ?thesis
  proof (cases r)
    case None
    with assms P_summary s that(6) show ?thesis by (simp add: primary_step_cases)
  next
    case (Some e)
    with assms P_summary s that(7) show ?thesis by (simp add: primary_step_cases)
  qed
next
  case P_early_return
  with assms that(8) show ?thesis by (simp add: primary_step_cases)
next
  case P_post_tests
  with assms show ?thesis by (simp add: primary_step_cases)
next
  case (P_return i)
  with assms that(9,10) show ?thesis by (cases "results w") (simp_all add: primary_step_cases)
next
  case (P_done out)
  with assms show ?thesis by (simp add: primary_step_cases)
qed

lemma secondary_step_cases:
  "spc w = S_not_started \<Longrightarrow> secondary_step w = None"
  "spc w = S_wait \<Longrightarrow> secondary_step w = None"
  "spc w = S_timeout_print \<Longrightarrow> secondary_step w =
     Some (emit [Print timeout_message] (w\<lparr>spc := S_timeout_shutdown\<rparr>))"
  "spc w = S_timeout_shutdown \<Longrightarrow> secondary_step w =
     Some (emit [Service_shutdown] (w\<lparr>spc := S_exited None\<rparr>))"
  "spc w = S_run_tests \<Longrightarrow> secondary_step w = None"
  "spc w = S_finally_set pending \<Longrightarrow> secondary_step w =
     Some (emit [Set_tests_completed] (w\<lparr>tests_completed := True, spc := S_finally_shutdown pending\<rparr>))"
  "spc w = S_finally_shutdown pending \<Longrightarrow> secondary_step w =
     Some (emit [Service_shutdown] (w\<lparr>spc := S_exited pending\<rparr>))"
  "spc w = S_exited pending \<Longrightarrow> secondary_step w = None"
  by simp_all

declare secondary_step.simps [simp del]

lemma secondary_step_elim [consumes 1, case_names timeout_print timeout_shutdown finally_set
    finally_shutdown]:
  assumes "secondary_step w = Some w'"
  obtains
    "spc w = S_timeout_print" "w' = emit [Print timeout_message] (w\<lparr>spc := S_timeout_shutdown\<rparr>)"
  | "spc w = S_timeout_shutdown" "w' = emit [Service_shutdown] (w\<lparr>spc := S_exited None\<rparr>)"
  | pending where "spc w = S_finally_set pending"
      "w' = emit [Set_tests_completed]
              (w\<lparr>tests_completed := True, spc := S_finally_shutdown pending\<rparr>)"
  | pending where "spc w = S_finally_shutdown pending"
      "w' = emit [Service_shutdown] (w\<lparr>spc := S_exited pending\<rparr>)"
proof (cases "spc w")
  case S_timeout_print
  with assms that(1) show ?thesis by (simp add: secondary_step_cases)
next
  case S_timeout_shutdown
  with assms that(2) show ?thesis by (simp add: secondary_step_cases)
next
  case (S_finally_set pending)
  with assms that(3) show ?thesis by (simp add: secondary_step_cases)
next
  case (S_finally_shutdown pending)
  with assms that(4) show ?thesis by (simp add: secondary_step_cases)
qed (use assms in \<open>simp_all add: secondary_step_cases\<close>)

lemma step_elim [consumes 1, case_names bind start_thread check_unset check_set
    early_print summary_ok summary_raise early_return return_unset return_ok
    timeout_print timeout_shutdown finally_set finally_shutdown
    ready wait_ready wait_timeout pre_ok pre_raise post_ok post_raise service_returns]:
  assumes "step a w = Some w'"
  obtains
    "a = Primary" "ppc w = P_bind"
      "w' = emit [Bind Pre_shutdown_tests, Bind Post_shutdown_tests]
            (w\<lparr>pre_bound := Some (pre_shutdown_binding (self_test_run w) (parsed_launch_arguments w)),
               post_bound := Some (post_shutdown_binding (self_test_run w) (parsed_launch_arguments w)),
               ppc := P_start_thread\<rparr>)"
  | "a = Primary" "ppc w = P_start_thread"
      "w' = emit [Thread_start] (w\<lparr>spc := S_wait, ppc := P_service_run\<rparr>)"
  | "a = Primary" "ppc w = P_check" "\<not> tests_completed w" "w' = w\<lparr>ppc := P_early_print\<rparr>"
  | "a = Primary" "ppc w = P_check" "tests_completed w" "w' = w\<lparr>ppc := P_post_tests\<rparr>"
  | "a = Primary" "ppc w = P_early_print"
      "w' = emit [Print early_message] (w\<lparr>ppc := P_summary\<rparr>)"
  | lines where "a = Primary" "ppc w = P_summary"
      "print_process_output_summary (proc_info_acc w) (proc_output_acc w) = (lines, None)"
      "w' = emit (map Print lines) (w\<lparr>ppc := P_early_return\<rparr>)"
  | lines e where "a = Primary" "ppc w = P_summary"
      "print_process_output_summary (proc_info_acc w) (proc_output_acc w) = (lines, Some e)"
      "w' = emit (map Print lines) (w\<lparr>ppc := P_done (Inl e)\<rparr>)"
  | "a = Primary" "ppc w = P_early_return"
      "w' = w\<lparr>ppc := P_done (Inr (ResultPair FailResult FailResult))\<rparr>"
  | i where "a = Primary" "ppc w = P_return i" "results w = None"
      "w' = w\<lparr>ppc := P_done (Inl (AttributeError ''_results''))\<rparr>"
  | i r where "a = Primary" "ppc w = P_return i" "results w = Some r"
      "w' = w\<lparr>ppc := P_done (Inr (ResultPair r i))\<rparr>"
  | "a = Secondary" "spc w = S_timeout_print"
      "w' = emit [Print timeout_message] (w\<lparr>spc := S_timeout_shutdown\<rparr>)"
  | "a = Secondary" "spc w = S_timeout_shutdown"
      "w' = emit [Service_shutdown] (w\<lparr>spc := S_exited None\<rparr>)"
  | pending where "a = Secondary" "spc w = S_finally_set pending"
      "w' = emit [Set_tests_completed]
              (w\<lparr>tests_completed := True, spc := S_finally_shutdown pending\<rparr>)"
  | pending where "a = Secondary" "spc w = S_finally_shutdown pending"
      "w' = emit [Service_shutdown] (w\<lparr>spc := S_exited pending\<rparr>)"
  | "a = Ready_callback" "ppc w \<noteq> P_bind"
      "w' = emit [Set_processes_launched] (w\<lparr>processes_launched := True\<rparr>)"
  | "a = Wait_ready" "spc w = S_wait" "processes_launched w" "w' = w\<lparr>spc := S_run_tests\<rparr>"
  | "a = Wait_timeout" "spc w = S_wait" "\<not> processes_launched w"
      "w' = w\<lparr>spc := S_timeout_print\<rparr>"
  | res where "a = Pre_runner (Inr res)" "spc w = S_run_tests"
      "w' = emit [Run_suite Pre_shutdown_tests]
              (w\<lparr>results := Some (TestResult res), spc := S_finally_set None\<rparr>)"
  | e where "a = Pre_runner (Inl e)" "spc w = S_run_tests"
      "w' = emit [Run_suite Pre_shutdown_tests] (w\<lparr>spc := S_finally_set (Some e)\<rparr>)"
  | res where "a = Post_runner (Inr res)" "ppc w = P_post_tests"
      "w' = emit [Run_suite Post_shutdown_tests] (w\<lparr>ppc := P_return (TestResult res)\<rparr>)"
  | e where "a = Post_runner (Inl e)" "ppc w = P_post_tests"
      "w' = emit [Run_suite Post_shutdown_tests] (w\<lparr>ppc := P_done (Inl e)\<rparr>)"
  | pi po where "a = Service_returns pi po" "ppc w = P_service_run"
      "w' = w\<lparr>proc_info_acc := pi, proc_output_acc := po, ppc := P_check\<rparr>"
proof (cases a)
  case Primary
  with assms have "primary_step w = Some w'" by simp
  then show ?thesis
    using Primary that(1-10) by (cases rule: primary_step_elim) blast+
next
  case Secondary
  with assms have "secondary_step w = Some w'" by simp
  then show ?thesis
    using Secondary that(11-14) by (cases rule: secondary_step_elim) blast+
next
  case Ready_callback
  with assms that(15) show ?thesis by (simp split: if_splits)
next
  case Wait_ready
  with assms that(16) show ?thesis by (simp split: if_splits)
next
  case Wait_timeout
  with assms that(17) show ?thesis by (simp split: if_splits)
next
  case (Pre_runner r)
  with assms that(18,19) show ?thesis by (cases r) (simp_all split: if_splits)
next
  case (Post_runner r)
  with assms that(20,21) show ?thesis by (cases r) (simp_all split: if_splits)
next
  case (Service_returns pi po)
  with assms that(22) show ?thesis by (simp split: if_splits)
qed

lemmas eval_simps = primary_step.simps secondary_step.simps init_worker_def emit_def


subsection \<open>The second thread\<close>

lemma secondary_inv_init: "secondary_inv (init_worker run parsed dbg)"
  by (simp add: secondary_inv_def init_worker_def sec_trace_def)

lemma secondary_inv_step:
  assumes "secondary_inv w" and "step a w = Some w'"
  shows "secondary_inv w'"
  using assms(2,1)
  by (cases rule: step_elim) (auto simp: secondary_inv_def secondary_event_def)

lemma secondary_inv_reachable:
  assumes "exec sched (init_worker run parsed dbg) = Some w"
  shows "secondary_inv w"
  by (rule exec_invariant [where I = secondary_inv and A = UNIV, OF _ _ secondary_inv_init assms])
     (auto intro: secondary_inv_step)

lemma secondary_event_mem:
  "secondary_event e \<Longrightarrow> e \<in> set (sec_trace w) \<longleftrightarrow> e \<in> set (trace w)"
  by (simp add: sec_trace_def)

lemma count_list_filter_same:
  "P x \<Longrightarrow> count_list (filter P xs) x = count_list xs x"
  by (induction xs) auto

lemma secondary_event_count:
  "secondary_event e \<Longrightarrow> count_list (sec_trace w) e = count_list (trace w) e"
  by (simp add: sec_trace_def count_list_filter_same)

lemma takeWhile_filter_commute:
  "P b \<Longrightarrow> takeWhile (\<lambda>e. e \<noteq> b) (filter P xs) = filter P (takeWhile (\<lambda>e. e \<noteq> b) xs)"
  by (induction xs) auto

lemma exited_facts:
  assumes "secondary_inv w" and "spc w = S_exited pending"
  shows "count_list (trace w) Set_tests_completed
           = (if Run_suite Pre_shutdown_tests \<in> set (trace w) then 1 else 0)"
    and "tests_completed w \<longleftrightarrow> Run_suite Pre_shutdown_tests \<in> set (trace w)"
    and "Set_tests_completed \<in> set (trace w) \<longleftrightarrow> Run_suite Pre_shutdown_tests \<in> set (trace w)"
proof -
  from assms have c: "(sec_trace w = [Service_shutdown] \<and> \<not> tests_completed w)
      \<or> (sec_trace w = [Run_suite Pre_shutdown_tests, Set_tests_completed, Service_shutdown]
          \<and> tests_completed w)"
    by (auto simp: secondary_inv_def)
  have m: "Run_suite Pre_shutdown_tests \<in> set (trace w)
      \<longleftrightarrow> Run_suite Pre_shutdown_tests \<in> set (sec_trace w)"
    by (simp add: secondary_event_mem)
  have n: "count_list (trace w) Set_tests_completed = count_list (sec_trace w) Set_tests_completed"
    by (simp add: secondary_event_count)
  from c show "count_list (trace w) Set_tests_completed
           = (if Run_suite Pre_shutdown_tests \<in> set (trace w) then 1 else 0)"
    unfolding m n by auto
  from c show "tests_completed w \<longleftrightarrow> Run_suite Pre_shutdown_tests \<in> set (trace w)"
    unfolding m by auto
  have k: "Set_tests_completed \<in> set (trace w) \<longleftrightarrow> Set_tests_completed \<in> set (sec_trace w)"
    by (simp add: secondary_event_mem)
  from c show "Set_tests_completed \<in> set (trace w)
      \<longleftrightarrow> Run_suite Pre_shutdown_tests \<in> set (trace w)"
    unfolding m k by auto
qed

lemma shutdown_requested_exited:
  assumes "secondary_inv w" and "Service_shutdown \<in> set (trace w)"
  shows "\<exists>pending. spc w = S_exited pending"
proof -
  from assms(2) have "Service_shutdown \<in> set (sec_trace w)"
    by (simp add: secondary_event_mem)
  with assms(1) show ?thesis
    by (cases "spc w") (auto simp: secondary_inv_def)
qed

lemma shutdown_requested_order:
  assumes "secondary_inv w" and "Service_shutdown \<in> set (trace w)"
    and "Run_suite Pre_shutdown_tests \<in> set (trace w)"
  shows "Set_tests_completed \<in> set (takeWhile (\<lambda>e. e \<noteq> Service_shutdown) (trace w))"
proof -
  from shutdown_requested_exited [OF assms(1,2)] obtain pending where p: "spc w = S_exited pending"
    by blast
  from assms(3) have "Run_suite Pre_shutdown_tests \<in> set (sec_trace w)"
    by (simp add: secondary_event_mem)
  with assms(1) p
  have "sec_trace w = [Run_suite Pre_shutdown_tests, Set_tests_completed, Service_shutdown]"
    by (auto simp: secondary_inv_def)
  then have "takeWhile (\<lambda>e. e \<noteq> Service_shutdown) (sec_trace w)
      = [Run_suite Pre_shutdown_tests, Set_tests_completed]"
    by simp
  then have "Set_tests_completed
      \<in> set (filter secondary_event (takeWhile (\<lambda>e. e \<noteq> Service_shutdown) (trace w)))"
    by (simp add: sec_trace_def takeWhile_filter_commute)
  then show ?thesis by simp
qed

lemma exited_stable_step:
  assumes "secondary_inv w \<and> spc w = S_exited pending \<and> tests_completed w = c"
    and "step a w = Some w'"
  shows "secondary_inv w' \<and> spc w' = S_exited pending \<and> tests_completed w' = c"
proof -
  from assms have "secondary_inv w'" by (blast intro: secondary_inv_step)
  moreover from assms(1) have "ppc w \<noteq> P_start_thread" by (auto simp: secondary_inv_def)
  with assms(2,1) have "spc w' = S_exited pending \<and> tests_completed w' = c"
    by (cases rule: step_elim) auto
  ultimately show ?thesis by simp
qed

lemma exited_stable:
  assumes "secondary_inv w" and "spc w = S_exited pending" and "exec sched w = Some w'"
  shows "tests_completed w' = tests_completed w"
proof -
  let ?I = "\<lambda>v. secondary_inv v \<and> spc v = S_exited pending \<and> tests_completed v = tests_completed w"
  have "?I w'"
  proof (rule exec_invariant [where I = ?I and A = UNIV, OF _ _ _ assms(3)])
    show "\<And>a v v'. a \<in> UNIV \<Longrightarrow> ?I v \<Longrightarrow> step a v = Some v' \<Longrightarrow> ?I v'"
      by (rule exited_stable_step)
    show "set sched \<subseteq> UNIV" by simp
    show "?I w" using assms(1,2) by simp
  qed
  then show ?thesis by simp
qed


text \<open>
  Claim C3, as stated, fails: when the readiness wait times out the routine
  prints, requests the shutdown and returns, and the tests-completed signal has
  not been set at all.
\<close>

theorem timeout_exit_without_set_counterexample:
  "map_option (\<lambda>w. (spc w, tests_completed w, count_list (trace w) Set_tests_completed))
     (exec timeout_schedule (init_worker ex_ready_run [] False)) = Some (S_exited None, False, 0)"
  by (simp add: timeout_schedule_def eval_simps)


lemma timeout_path_inv_step:
  assumes "secondary_inv w \<and> timeout_path_inv w" and "step a w = Some w'"
  shows "secondary_inv w' \<and> timeout_path_inv w'"
proof -
  from assms have s: "secondary_inv w'" by (blast intro: secondary_inv_step)
  from assms(1) have f: "\<And>p. spc w = S_finally_shutdown p \<Longrightarrow> tests_completed w"
    and n: "ppc w = P_start_thread \<Longrightarrow> spc w = S_not_started"
    by (auto simp: secondary_inv_def)
  from assms(1) have t: "timeout_path_inv w" by simp
  from assms(2) t f n have "timeout_path_inv w'"
    by (cases rule: step_elim) (auto simp: timeout_path_inv_def)
  with s show ?thesis by simp
qed

lemma timeout_path_inv_reachable:
  assumes "exec sched (init_worker run parsed dbg) = Some w"
  shows "timeout_path_inv w"
proof -
  let ?I = "\<lambda>v. secondary_inv v \<and> timeout_path_inv v"
  have "?I w"
  proof (rule exec_invariant [where I = ?I and A = UNIV, OF _ _ _ assms])
    show "\<And>a v v'. a \<in> UNIV \<Longrightarrow> ?I v \<Longrightarrow> step a v = Some v' \<Longrightarrow> ?I v'"
      by (rule timeout_path_inv_step)
    show "set sched \<subseteq> UNIV" by simp
    show "?I (init_worker run parsed dbg)"
      using secondary_inv_init [of run parsed dbg]
      by (simp add: timeout_path_inv_def init_worker_def)
  qed
  then show ?thesis by simp
qed

lemma exited_shutdown_requested:
  assumes "secondary_inv w" and "spc w = S_exited pending"
  shows "Service_shutdown \<in> set (trace w)"
proof -
  from assms have "Service_shutdown \<in> set (sec_trace w)"
    by (auto simp: secondary_inv_def)
  then show ?thesis by (simp add: secondary_event_mem)
qed

text \<open>
  Claim C3, amended: whenever the test-running routine has ended, it has
  requested the shutdown, and
  \<^item> if it ran the pre-shutdown suite (the readiness wait succeeded; the suite
    returned or raised), the tests-completed signal has been set exactly once,
    before the shutdown request, and is set;
  \<^item> if the readiness wait timed out, the routine has printed its timeout
    message and returned normally, and the signal has never been set and is
    unset.
\<close>

theorem tests_completed_set_once_after_readiness:
  assumes "exec sched (init_worker run parsed dbg) = Some w" and "spc w = S_exited pending"
  shows "count_list (trace w) Set_tests_completed
           = (if Run_suite Pre_shutdown_tests \<in> set (trace w) then 1 else 0)
         \<and> (tests_completed w \<longleftrightarrow> Run_suite Pre_shutdown_tests \<in> set (trace w))
         \<and> Service_shutdown \<in> set (trace w)
         \<and> (Run_suite Pre_shutdown_tests \<in> set (trace w) \<longrightarrow>
               Set_tests_completed \<in> set (takeWhile (\<lambda>e. e \<noteq> Service_shutdown) (trace w)))
         \<and> (Run_suite Pre_shutdown_tests \<notin> set (trace w) \<longrightarrow>
               Print timeout_message \<in> set (trace w)
               \<and> Set_tests_completed \<notin> set (trace w) \<and> pending = None)"
proof -
  note inv = secondary_inv_reachable [OF assms(1)]
  note f = exited_facts [OF inv assms(2)]
  note sd = exited_shutdown_requested [OF inv assms(2)]
  have o: "Run_suite Pre_shutdown_tests \<in> set (trace w) \<longrightarrow>
      Set_tests_completed \<in> set (takeWhile (\<lambda>e. e \<noteq> Service_shutdown) (trace w))"
    using shutdown_requested_order [OF inv sd] by blast
  have t: "Run_suite Pre_shutdown_tests \<notin> set (trace w) \<longrightarrow>
      Print timeout_message \<in> set (trace w) \<and> Set_tests_completed \<notin> set (trace w)
      \<and> pending = None"
    using timeout_path_inv_reachable [OF assms(1)] assms(2) f(2,3)
    by (simp add: timeout_path_inv_def)
  from f(1,2) sd o t show ?thesis by blast
qed

theorem tests_completed_set_once_after_readiness_witness:
  "count_list (trace (the (exec normal_schedule (init_worker ex_ready_run [] False))))
     Set_tests_completed = 1
   \<and> tests_completed (the (exec normal_schedule (init_worker ex_ready_run [] False)))
   \<and> Print timeout_message
       \<in> set (trace (the (exec timeout_schedule (init_worker ex_ready_run [] False))))
   \<and> Service_shutdown
       \<in> set (trace (the (exec timeout_schedule (init_worker ex_ready_run [] False))))
   \<and> count_list (trace (the (exec timeout_schedule (init_worker ex_ready_run [] False))))
       Set_tests_completed = 0"
  using tests_completed_set_once_after_readiness
    [of normal_schedule ex_ready_run "[]" False
        "the (exec normal_schedule (init_worker ex_ready_run [] False))" None]
    tests_completed_set_once_after_readiness
    [of timeout_schedule ex_ready_run "[]" False
        "the (exec timeout_schedule (init_worker ex_ready_run [] False))" None]
  by (simp add: normal_schedule_def timeout_schedule_def eval_simps)

text \<open>
  Claim C4, as stated, fails: on the timeout path the second thread requests
  the shutdown while the completion signal is unset, and it never sets it.
\<close>

theorem shutdown_without_completion_counterexample:
  "map_option (\<lambda>w. (Service_shutdown \<in> set (trace w), tests_completed w,
                     Set_tests_completed \<in> set (trace w)))
     (exec timeout_schedule (init_worker ex_ready_run [] False)) = Some (True, False, False)"
  by (simp add: timeout_schedule_def eval_simps)


text \<open>
  Claim C4, amended: once the second thread has requested the shutdown, then
  if it ran the pre-shutdown suite the completion signal was set before the
  request, and if the readiness wait timed out the signal is unset and was
  never set; in both cases the value of the signal does not change any more,
  whatever happens afterwards.
\<close>

theorem completion_signal_before_shutdown_after_readiness:
  assumes "exec sched (init_worker run parsed dbg) = Some w"
    and "Service_shutdown \<in> set (trace w)"
  shows "(Run_suite Pre_shutdown_tests \<in> set (trace w) \<longrightarrow>
            Set_tests_completed \<in> set (takeWhile (\<lambda>e. e \<noteq> Service_shutdown) (trace w))
            \<and> tests_completed w)
       \<and> (Run_suite Pre_shutdown_tests \<notin> set (trace w) \<longrightarrow>
            Set_tests_completed \<notin> set (trace w) \<and> \<not> tests_completed w)
       \<and> (\<forall>sched' w'. exec sched' w = Some w' \<longrightarrow> tests_completed w' = tests_completed w)"
proof -
  note inv = secondary_inv_reachable [OF assms(1)]
  from shutdown_requested_exited [OF inv assms(2)] obtain pending where p: "spc w = S_exited pending"
    by blast
  note f = exited_facts [OF inv p]
  have a: "Run_suite Pre_shutdown_tests \<in> set (trace w) \<longrightarrow>
            Set_tests_completed \<in> set (takeWhile (\<lambda>e. e \<noteq> Service_shutdown) (trace w))
            \<and> tests_completed w"
    using shutdown_requested_order [OF inv assms(2)] f(2) by simp
  have b: "Run_suite Pre_shutdown_tests \<notin> set (trace w) \<longrightarrow>
            Set_tests_completed \<notin> set (trace w) \<and> \<not> tests_completed w"
    using f(2,3) by simp
  have c: "\<forall>sched' w'. exec sched' w = Some w' \<longrightarrow> tests_completed w' = tests_completed w"
    using exited_stable [OF inv p] by blast
  from a b c show ?thesis by blast
qed

theorem completion_signal_before_shutdown_after_readiness_witness:
  "takeWhile (\<lambda>e. e \<noteq> Service_shutdown)
     (trace (the (exec normal_schedule (init_worker ex_ready_run [] False))))
   = [Bind Pre_shutdown_tests, Bind Post_shutdown_tests, Thread_start, Set_processes_launched,
      Run_suite Pre_shutdown_tests, Set_tests_completed]
   \<and> tests_completed (the (exec normal_schedule (init_worker ex_ready_run [] False)))"
  using completion_signal_before_shutdown_after_readiness
    [of normal_schedule ex_ready_run "[]" False
        "the (exec normal_schedule (init_worker ex_ready_run [] False))"]
  by (simp add: normal_schedule_def eval_simps)


subsection \<open>The diagnostic summary\<close>

lemma print_io_ascii:
  "list_all (\<lambda>io. list_all (\<lambda>c. (of_char c :: nat) < 128) (io_text io)) ios
   \<Longrightarrow> print_io ios = (map io_text ios, None)"
  by (induction ios) (auto simp: decode_ascii_def)

lemma print_io_error: "snd (print_io ios) = None \<or> snd (print_io ios) = Some UnicodeDecodeError"
  by (induction ios) (auto simp: decode_ascii_def split: prod.splits)

lemma try_print_output_ascii:
  "ascii_output po p \<Longrightarrow>
   try_print_output po p = ((case po (action p) of None \<Rightarrow> [] | Some ios \<Rightarrow> map io_text ios), None)"
  by (auto simp: try_print_output_def ascii_output_def getitem_def print_io_ascii split: option.splits)

lemma try_print_output_error:
  "snd (try_print_output po p) = None \<or> snd (try_print_output po p) = Some UnicodeDecodeError"
proof (cases "po (action p)")
  case None
  then show ?thesis by (simp add: try_print_output_def getitem_def)
next
  case (Some ios)
  with print_io_error [of ios] show ?thesis
    by (cases "print_io ios") (auto simp: try_print_output_def getitem_def)
qed

lemma summary_loop_ascii:
  "\<forall>p \<in> set ps. ascii_output po p \<Longrightarrow>
   summary_loop ps po = (concat (map (summary_block po) ps), None)"
  by (induction ps) (auto simp: try_print_output_ascii summary_block_def)

lemma summary_loop_error:
  "snd (summary_loop ps po) = None \<or> snd (summary_loop ps po) = Some UnicodeDecodeError"
proof (induction ps)
  case Nil
  then show ?case by simp
next
  case (Cons p ps)
  obtain ls r where t: "try_print_output po p = (ls, r)" by (cases "try_print_output po p")
  obtain ms q where l: "summary_loop ps po = (ms, q)" by (cases "summary_loop ps po")
  from try_print_output_error [of po p] t have "r = None \<or> r = Some UnicodeDecodeError" by simp
  with Cons t l show ?case by auto
qed

text \<open>
  When the output of every failed process is ASCII, the summary prints one
  block for each exit record with a non-zero code, in order, and for no other
  record, and does not raise. The only exception it can raise is
  \<open>UnicodeDecodeError\<close>.
\<close>

lemma summary_ascii:
  assumes "\<forall>p \<in> set pi. returncode p \<noteq> 0 \<longrightarrow> ascii_output po p"
  shows "print_process_output_summary pi po
    = (concat (map (summary_block po) (filter (\<lambda>proc. returncode proc \<noteq> 0) pi)), None)"
  using assms by (simp add: print_process_output_summary_def summary_loop_ascii)

lemma summary_error_kind:
  "snd (print_process_output_summary pi po) = None
   \<or> snd (print_process_output_summary pi po) = Some UnicodeDecodeError"
  by (simp add: print_process_output_summary_def summary_loop_error)

text \<open>
  Claim C8 says that the summary prints, for every process with a non-zero
  exit code, its name and exit code and every captured output line between
  header and footer. The program does not do so when a failed process has
  written a byte above 127: decoding raises \<open>UnicodeDecodeError\<close>, which the
  handler for \<open>KeyError\<close> does not catch, after the header of that process;
  its footer and the second failed process are never printed.
\<close>

theorem summary_non_ascii_raises:
  "print_process_output_summary [ex_talker, ex_listener] ex_non_ascii_output
     = ([exited_line ex_talker, header_line ex_talker], Some UnicodeDecodeError)
   \<and> returncode ex_talker \<noteq> 0 \<and> returncode ex_listener \<noteq> 0"
  by (simp add: print_process_output_summary_def ex_talker_def ex_listener_def
      ex_non_ascii_output_def try_print_output_def getitem_def decode_ascii_def)


subsection \<open>Binding\<close>

lemma bind_inv_step:
  assumes "bind_inv run parsed w" and "step a w = Some w'"
  shows "bind_inv run parsed w'"
  using assms(2,1) by (cases rule: step_elim) (auto simp: bind_inv_def)

lemma bind_inv_reachable:
  assumes "exec sched (init_worker run parsed dbg) = Some w"
  shows "bind_inv run parsed w"
proof (rule exec_invariant [where I = "bind_inv run parsed" and A = UNIV, OF _ _ _ assms])
  show "\<And>a v v'. a \<in> UNIV \<Longrightarrow> bind_inv run parsed v \<Longrightarrow> step a v = Some v' \<Longrightarrow> bind_inv run parsed v'"
    by (rule bind_inv_step)
  show "set sched \<subseteq> UNIV" by simp
  show "bind_inv run parsed (init_worker run parsed dbg)"
    by (simp add: bind_inv_def init_worker_def)
qed

lemma pre_binding_lookup:
  "injected_attributes (pre_shutdown_binding run parsed) k =
     (if k = ''test_args'' then Some (Test_args (build_test_args parsed Map.empty))
      else if k = ''proc_output'' then Some Active_proc_output
      else if k = ''proc_info'' then Some Active_proc_info else None)"
  "injected_args (pre_shutdown_binding run parsed) k =
     (if k = ''test_args'' then Some (Test_args (build_test_args parsed Map.empty))
      else if k = ''proc_output'' then Some Active_proc_output
      else if k = ''proc_info'' then Some Active_proc_info else test_context run k)"
  by (simp_all add: pre_shutdown_binding_def dict_with_def Let_def map_add_def)

lemma post_binding_lookup:
  "injected_attributes (post_shutdown_binding run parsed) k =
     (if k = ''test_args'' then Some (Test_args (build_test_args parsed Map.empty))
      else if k = ''proc_output'' then Some Inner_io_handler
      else if k = ''proc_info'' then Some Inner_proc_info_handler else None)"
  "injected_args (post_shutdown_binding run parsed) k =
     (if k = ''test_args'' then Some (Test_args (build_test_args parsed Map.empty))
      else if k = ''proc_output'' then Some Inner_io_handler
      else if k = ''proc_info'' then Some Inner_proc_info_handler else test_context run k)"
  by (simp_all add: post_shutdown_binding_def dict_with_def Let_def map_add_def)

text \<open>
  Claim C6: once the primary thread has bound the suites (in every state
  after its first statement), the pre-shutdown suite has received the live
  accumulator objects and the post-shutdown suite their inner stores, each
  under the names \<open>proc_info\<close> and \<open>proc_output\<close>, and both have received the
  parsed launch arguments under \<open>test_args\<close>; the three names are the injected
  attributes, and the injected keyword arguments are the same three names
  together with the values of the run's context under every other name.
\<close>

theorem bound_suites_receive_handles:
  assumes "exec sched (init_worker run parsed dbg) = Some w" and "ppc w \<noteq> P_bind"
  shows "\<exists>pre post. pre_bound w = Some pre \<and> post_bound w = Some post
    \<and> (\<forall>k. injected_attributes pre k =
          (if k = ''test_args'' then Some (Test_args (build_test_args parsed Map.empty))
           else if k = ''proc_output'' then Some Active_proc_output
           else if k = ''proc_info'' then Some Active_proc_info else None))
    \<and> (\<forall>k. injected_args pre k =
          (if k = ''test_args'' then Some (Test_args (build_test_args parsed Map.empty))
           else if k = ''proc_output'' then Some Active_proc_output
           else if k = ''proc_info'' then Some Active_proc_info else test_context run k))
    \<and> (\<forall>k. injected_attributes post k =
          (if k = ''test_args'' then Some (Test_args (build_test_args parsed Map.empty))
           else if k = ''proc_output'' then Some Inner_io_handler
           else if k = ''proc_info'' then Some Inner_proc_info_handler else None))
    \<and> (\<forall>k. injected_args post k =
          (if k = ''test_args'' then Some (Test_args (build_test_args parsed Map.empty))
           else if k = ''proc_output'' then Some Inner_io_handler
           else if k = ''proc_info'' then Some Inner_proc_info_handler else test_context run k))"
  using bind_inv_reachable [OF assms(1)] assms(2)
  by (simp add: bind_inv_def pre_binding_lookup post_binding_lookup)

theorem bound_suites_receive_handles_witness:
  "map_option (\<lambda>b. (injected_attributes b ''proc_info'', injected_args b ''proc_output'',
                    injected_args b ''dut''))
     (pre_bound (the (exec [Primary] (init_worker ex_context_run [] False))))
     = Some (Some Active_proc_info, Some Active_proc_output, Some (Context_value 2))
   \<and> map_option (\<lambda>b. (injected_attributes b ''proc_info'', injected_args b ''proc_output'',
                    injected_args b ''dut''))
     (post_bound (the (exec [Primary] (init_worker ex_context_run [] False))))
     = Some (Some Inner_proc_info_handler, Some Inner_io_handler, Some (Context_value 2))"
  using bound_suites_receive_handles
    [of "[Primary]" ex_context_run "[]" False
        "the (exec [Primary] (init_worker ex_context_run [] False))"]
  by (auto simp: eval_simps ex_context_run_def)

text \<open>
  Claim C10: when the context of the run has an entry named \<open>proc_info\<close>,
  \<open>proc_output\<close> or \<open>test_args\<close>, the keyword arguments bound to each suite
  map that name to the worker's own accumulator handle or parsed-argument
  mapping, not to the value of the context.
\<close>

theorem reserved_names_override_context:
  assumes "name \<in> {''proc_info'', ''proc_output'', ''test_args''}"
    and "test_context run name = Some v"
  shows "injected_args (pre_shutdown_binding run parsed) name =
           (if name = ''proc_info'' then Some Active_proc_info
            else if name = ''proc_output'' then Some Active_proc_output
            else Some (Test_args (build_test_args parsed Map.empty)))
       \<and> injected_args (post_shutdown_binding run parsed) name =
           (if name = ''proc_info'' then Some Inner_proc_info_handler
            else if name = ''proc_output'' then Some Inner_io_handler
            else Some (Test_args (build_test_args parsed Map.empty)))"
  using assms(1) by (auto simp: pre_binding_lookup post_binding_lookup)

theorem reserved_names_override_context_witness:
  "test_context ex_context_run ''proc_info'' = Some (Context_value 1)
   \<and> injected_args (pre_shutdown_binding ex_context_run []) ''proc_info'' = Some Active_proc_info
   \<and> injected_args (post_shutdown_binding ex_context_run []) ''proc_info''
       = Some Inner_proc_info_handler"
  using reserved_names_override_context [of "''proc_info''" ex_context_run "Context_value 1" "[]"]
  by (simp add: ex_context_run_def)


subsection \<open>The primary thread\<close>

lemma summary_error_upd [simp]:
  "summary_error (emit es w) = summary_error w"
  "summary_error (w\<lparr>ppc := a\<rparr>) = summary_error w"
  "summary_error (w\<lparr>spc := b\<rparr>) = summary_error w"
  "summary_error (w\<lparr>tests_completed := c\<rparr>) = summary_error w"
  "summary_error (w\<lparr>processes_launched := d\<rparr>) = summary_error w"
  "summary_error (w\<lparr>results := e\<rparr>) = summary_error w"
  "summary_error (w\<lparr>pre_bound := f\<rparr>) = summary_error w"
  "summary_error (w\<lparr>post_bound := g\<rparr>) = summary_error w"
  by (simp_all add: summary_error_def emit_def)

lemma summary_error_eq:
  "print_process_output_summary (proc_info_acc w) (proc_output_acc w) = (lines, r)
   \<Longrightarrow> summary_error w = r"
  by (simp add: summary_error_def)

lemma post_inv_step:
  assumes "post_inv w" and "step a w = Some w'"
  shows "post_inv w'"
  using assms(2,1) by (cases rule: step_elim) (auto simp: post_inv_def)

lemma post_inv_reachable:
  assumes "exec sched (init_worker run parsed dbg) = Some w"
  shows "post_inv w"
proof (rule exec_invariant [where I = post_inv and A = UNIV, OF _ _ _ assms])
  show "\<And>a v v'. a \<in> UNIV \<Longrightarrow> post_inv v \<Longrightarrow> step a v = Some v' \<Longrightarrow> post_inv v'"
    by (rule post_inv_step)
  show "set sched \<subseteq> UNIV" by simp
  show "post_inv (init_worker run parsed dbg)" by (simp add: post_inv_def init_worker_def)
qed

lemma early_exit_step:
  assumes "early_exit_inv w" and "step a w = Some w'"
  shows "early_exit_inv w'"
    and "early_rank (ppc w') + (if a = Primary then 1 else 0) \<le> early_rank (ppc w)"
  using assms(2,1)
  by (cases rule: step_elim; auto simp: early_exit_inv_def dest: summary_error_eq)+

lemma early_exit_exec:
  assumes "early_exit_inv w" and "exec sched w = Some w'"
  shows "early_exit_inv w' \<and> early_rank (ppc w') + count_list sched Primary \<le> early_rank (ppc w)"
  using assms
proof (induction sched arbitrary: w)
  case Nil
  then show ?case by simp
next
  case (Cons a sched)
  from Cons.prems(2) obtain v where s: "step a w = Some v" and e: "exec sched v = Some w'"
    by (auto split: option.splits)
  from early_exit_step [OF Cons.prems(1) s]
  have i: "early_exit_inv v"
    and r: "early_rank (ppc v) + (if a = Primary then 1 else 0) \<le> early_rank (ppc w)"
    by simp_all
  from Cons.IH [OF i e] r show ?case by auto
qed

lemma early_exit_enabled:
  assumes "early_exit_inv w" and "\<forall>out. ppc w \<noteq> P_done out"
  shows "step Primary w \<noteq> None"
  using assms
  by (cases "ppc w")
     (auto simp: early_exit_inv_def primary_step_cases split: prod.splits option.splits)

lemma early_rank_0:
  assumes "early_exit_inv w" and "early_rank (ppc w) = 0"
  shows "\<exists>out. ppc w = P_done out"
  using assms by (cases "ppc w") (auto simp: early_exit_inv_def)

text \<open>
  Claim C2, as stated, fails: the launch service can return while the
  completion signal is unset and the second thread set the signal before the
  primary thread checks it; then the post-shutdown suite runs and the call
  returns the results of both suites.
\<close>

theorem early_exit_race_counterexample:
  "map_option (\<lambda>w. (ppc w, tests_completed w))
     (exec race_schedule (init_worker ex_ready_run [] False)) = Some (P_check, False)
   \<and> map_option (\<lambda>w. (ppc w, Run_suite Post_shutdown_tests \<in> set (trace w)))
     (exec (race_schedule @ [Secondary, Primary, Post_runner (Inr 8), Primary])
        (init_worker ex_ready_run [] False))
     = Some (P_done (Inr (ResultPair (TestResult 7) (TestResult 8))), True)"
  by (simp add: race_schedule_def eval_simps)

text \<open>
  Claim C2, amended: whenever the check that the primary thread makes after
  the launch service has returned finds the completion signal unset, the
  post-shutdown suite never runs, and if the diagnostic summary completes the
  call returns the pair of failing results; the primary thread is never
  blocked on that branch and has returned after three more of its steps,
  whatever the second thread and the surroundings do in between.
\<close>

theorem check_unset_gives_failing_results:
  assumes "exec sched (init_worker run parsed dbg) = Some w"
    and "ppc w = P_check" and "\<not> tests_completed w"
    and "exec (Primary # sched') w = Some w'"
  shows "Run_suite Post_shutdown_tests \<notin> set (trace w')
       \<and> (\<forall>out. ppc w' = P_done out \<and> summary_error w' = None \<longrightarrow>
             out = Inr (ResultPair FailResult FailResult))
       \<and> (3 \<le> count_list sched' Primary \<longrightarrow> (\<exists>out. ppc w' = P_done out))
       \<and> ((\<forall>out. ppc w' \<noteq> P_done out) \<longrightarrow> step Primary w' \<noteq> None)"
proof -
  from post_inv_reachable [OF assms(1)] assms(2)
  have np: "Run_suite Post_shutdown_tests \<notin> set (trace w)"
    by (auto simp: post_inv_def)
  from assms(4) obtain v where s: "step Primary w = Some v" and e: "exec sched' v = Some w'"
    by (auto split: option.splits)
  from s assms(2,3) have v: "v = w\<lparr>ppc := P_early_print\<rparr>"
    by (simp add: primary_step_cases)
  with np have i: "early_exit_inv v" by (simp add: early_exit_inv_def)
  from early_exit_exec [OF i e] v
  have i': "early_exit_inv w'" and r: "early_rank (ppc w') + count_list sched' Primary \<le> 3"
    by simp_all
  have a: "Run_suite Post_shutdown_tests \<notin> set (trace w')"
    using i' by (simp add: early_exit_inv_def)
  have b: "\<forall>out. ppc w' = P_done out \<and> summary_error w' = None \<longrightarrow>
             out = Inr (ResultPair FailResult FailResult)"
    using i' by (auto simp: early_exit_inv_def)
  have c: "3 \<le> count_list sched' Primary \<longrightarrow> (\<exists>out. ppc w' = P_done out)"
  proof
    assume "3 \<le> count_list sched' Primary"
    with r have "early_rank (ppc w') = 0" by simp
    with i' show "\<exists>out. ppc w' = P_done out" by (rule early_rank_0)
  qed
  have d: "(\<forall>out. ppc w' \<noteq> P_done out) \<longrightarrow> step Primary w' \<noteq> None"
    using early_exit_enabled [OF i'] by blast
  from a b c d show ?thesis by blast
qed

theorem check_unset_gives_failing_results_witness:
  "ppc (the (exec (early_exit_schedule @ [Primary, Wait_timeout, Primary, Primary, Primary])
               (init_worker ex_ready_run [] False)))
     = P_done (Inr (ResultPair FailResult FailResult))
   \<and> Run_suite Post_shutdown_tests
       \<notin> set (trace (the (exec (early_exit_schedule @ [Primary, Wait_timeout, Primary, Primary, Primary])
               (init_worker ex_ready_run [] False))))"
  using check_unset_gives_failing_results
    [of early_exit_schedule ex_ready_run "[]" False
        "the (exec early_exit_schedule (init_worker ex_ready_run [] False))"
        "[Wait_timeout, Primary, Primary, Primary]"
        "the (exec (early_exit_schedule @ [Primary, Wait_timeout, Primary, Primary, Primary])
               (init_worker ex_ready_run [] False))"]
  by (simp add: early_exit_schedule_def eval_simps print_process_output_summary_def
      ex_listener_def try_print_output_def getitem_def summary_error_def)

text \<open>
  Runs in which the readiness callback is never invoked: no suite ever runs,
  the completion signal stays unset, the second thread can only end after a
  shutdown request, and the call, when it returns, returns the pair of failing
  results unless the summary raised.
\<close>

lemma no_ready_step:
  assumes "no_ready_inv w" and "step a w = Some w'" and "a \<noteq> Ready_callback"
  shows "no_ready_inv w'"
  using assms(2,1,3)
  by (cases rule: step_elim) (auto simp: no_ready_inv_def dest: summary_error_eq)

lemma no_ready_reachable:
  assumes "Ready_callback \<notin> set sched" and "exec sched (init_worker run parsed dbg) = Some w"
  shows "no_ready_inv w"
proof (rule exec_invariant
    [where I = no_ready_inv and A = "{a. a \<noteq> Ready_callback}", OF _ _ _ assms(2)])
  show "\<And>a v v'. a \<in> {a. a \<noteq> Ready_callback} \<Longrightarrow> no_ready_inv v \<Longrightarrow> step a v = Some v'
      \<Longrightarrow> no_ready_inv v'"
    by (simp add: no_ready_step)
  show "set sched \<subseteq> {a. a \<noteq> Ready_callback}" using assms(1) by auto
  show "no_ready_inv (init_worker run parsed dbg)" by (simp add: no_ready_inv_def init_worker_def)
qed

lemma never_ready_run:
  assumes "Ready_callback \<notin> set sched" and "exec sched (init_worker run parsed dbg) = Some w"
  shows "\<forall>s. Run_suite s \<notin> set (trace w)"
    and "\<not> tests_completed w"
    and "ppc w = P_done out \<Longrightarrow>
           out = (case summary_error w of
                    None \<Rightarrow> Inr (ResultPair FailResult FailResult) | Some e \<Rightarrow> Inl e)"
    and "spc w = S_exited pending \<Longrightarrow> pending = None \<and> Service_shutdown \<in> set (trace w)"
proof -
  note n = no_ready_reachable [OF assms]
  from n show "\<forall>s. Run_suite s \<notin> set (trace w)" and c: "\<not> tests_completed w"
    by (simp_all add: no_ready_inv_def)
  from n show "ppc w = P_done out \<Longrightarrow>
           out = (case summary_error w of
                    None \<Rightarrow> Inr (ResultPair FailResult FailResult) | Some e \<Rightarrow> Inl e)"
    by (auto simp: no_ready_inv_def)
  assume e: "spc w = S_exited pending"
  with n have "pending = None" by (simp add: no_ready_inv_def)
  moreover from secondary_inv_reachable [OF assms(2)] e c have "sec_trace w = [Service_shutdown]"
    by (auto simp: secondary_inv_def)
  then have "Service_shutdown \<in> set (sec_trace w)" by simp
  then have "Service_shutdown \<in> set (trace w)" by (simp add: secondary_event_mem)
  ultimately show "pending = None \<and> Service_shutdown \<in> set (trace w)" by simp
qed

text \<open>
  Claim C1 says that in every run in which the readiness callback is never
  invoked the call returns a pair of failing results. The program does not do
  so when a process that exited with a non-zero code has written a byte above
  127: after the timeout and the shutdown the primary thread takes the
  early-exit branch, and the diagnostic summary raises \<open>UnicodeDecodeError\<close>
  out of the call before line 147 is reached.
\<close>

theorem timeout_run_raises_on_non_ascii_output:
  "RunnerWorker_run ex_ready_run [] False
     (timeout_schedule
        @ [Service_returns [ex_talker, ex_listener] ex_non_ascii_output, Primary, Primary, Primary])
     = Some (Inl UnicodeDecodeError)
   \<and> Ready_callback \<notin> set (timeout_schedule
        @ [Service_returns [ex_talker, ex_listener] ex_non_ascii_output, Primary, Primary, Primary])"
  by (simp add: RunnerWorker_run_def timeout_schedule_def eval_simps
      print_process_output_summary_def ex_talker_def ex_listener_def ex_non_ascii_output_def
      try_print_output_def getitem_def decode_ascii_def)

end
